theory Spec2Isabelle
  imports Main
begin

section \<open>The Oz agent action: \<^verbatim>\<open>src/agent.ts\<close>\<close>

text \<open>
  A shallow embedding of \<^verbatim>\<open>src/agent.ts\<close>. A JavaScript string is a \<open>string\<close>; the
  code only tests strings for emptiness and equality, concatenates them, drops a leading
  \<^verbatim>\<open>v\<close> and splits at \<^verbatim>\<open>/\<close>, so the alphabet plays no role. A \<^verbatim>\<open>throw\<close> is the
  \<open>Inl\<close> of a sum. The collaborators of the action (the toolkit's input, cache, exec
  and HTTP modules, Node's \<^verbatim>\<open>process\<close>, \<^verbatim>\<open>path\<close>, \<^verbatim>\<open>fs\<close>, \<^verbatim>\<open>os\<close> and
  \<^verbatim>\<open>URL\<close>) are fields of an environment record, and every call that acts on the
  outside world is appended to a trace of events.
\<close>

subsection \<open>Errors\<close>

text \<open>
  \<^verbatim>\<open>new Error(message)\<close>, and the \<^verbatim>\<open>TypeError\<close> that the \<^verbatim>\<open>URL\<close> constructor throws
  for a string that is no absolute URL.
\<close>

datatype error = Error string | TypeError string

fun error_to_string :: "error \<Rightarrow> string" where
  "error_to_string (Error m) = ''Error: '' @ m"
| "error_to_string (TypeError m) = ''TypeError: '' @ m"

subsection \<open>\<^verbatim>\<open>resolveCommand\<close> (lines 67-76)\<close>

definition resolveCommand :: "string \<Rightarrow> error + string" where
  "resolveCommand channel =
     (if channel = ''stable'' then Inr ''oz''
      else if channel = ''preview'' then Inr ''oz-preview''
      else Inl (Error (''Unsupported channel '' @ channel)))"

subsection \<open>\<^verbatim>\<open>buildArgs\<close> (lines 78-145)\<close>

record BuildArgsOptions =
  prompt :: string
  savedPrompt :: string
  skill :: string
  model :: string
  name :: string
  mcp :: string
  cwd :: string
  profile :: string
  outputFormat :: string
  shareRecipients :: "string list"
  debug :: bool

text \<open>A string is truthy when it is not empty; \<^verbatim>\<open>args.push(...)\<close> appends in place.\<close>

definition truthy :: "string \<Rightarrow> bool" where
  "truthy s = (s \<noteq> [])"

definition push :: "string list \<Rightarrow> string list \<Rightarrow> string list" where
  "push args items = args @ items"

text \<open>The \<^verbatim>\<open>for ... of\<close> loop of lines 135-137, with the array threaded through.\<close>

fun push_shares :: "string list \<Rightarrow> string list \<Rightarrow> string list" where
  "push_shares args [] = args"
| "push_shares args (recipient # rest) =
     push_shares (push args [''--share'', recipient]) rest"

text \<open>
  The guard \<^verbatim>\<open>if (opts.shareRecipients)\<close> of line 134 tests an array, and every array
  is truthy, the empty one too: the loop always runs.
\<close>

definition buildArgs :: "BuildArgsOptions \<Rightarrow> string list" where
  "buildArgs opts =
     (let args = [''agent'', ''run''];
          args = (if truthy (prompt opts) then push args [''--prompt'', prompt opts] else args);
          args = (if truthy (savedPrompt opts)
                  then push args [''--saved-prompt'', savedPrompt opts] else args);
          args = (if truthy (skill opts) then push args [''--skill'', skill opts] else args);
          args = (if truthy (model opts) then push args [''--model'', model opts] else args);
          args = (if truthy (name opts) then push args [''--name'', name opts] else args);
          args = (if truthy (mcp opts) then push args [''--mcp'', mcp opts] else args);
          args = (if truthy (cwd opts) then push args [''--cwd'', cwd opts] else args);
          args = (if truthy (profile opts) then push args [''--profile'', profile opts]
                  else push args [''--sandboxed'']);
          args = (if truthy (outputFormat opts)
                  then push args [''--output-format'', outputFormat opts] else args);
          args = push_shares args (shareRecipients opts);
          args = (if debug opts then push args [''--debug''] else args)
      in args)"

subsection \<open>The argument list as the specification words it\<close>

text \<open>
  Section 4.2 of the specification: a field contributes its flag and its value when it is
  not empty, the profile step contributes one of two alternatives, and every recipient
  contributes a pair.
\<close>

definition flag_pair :: "string \<Rightarrow> string \<Rightarrow> string list" where
  "flag_pair flag v = (if v = [] then [] else [flag, v])"

definition profile_branch :: "BuildArgsOptions \<Rightarrow> string list" where
  "profile_branch opts =
     (if profile opts = [] then [''--sandboxed''] else [''--profile'', profile opts])"

definition share_pairs :: "string list \<Rightarrow> string list" where
  "share_pairs rs = concat (map (\<lambda>r. [''--share'', r]) rs)"

definition args_before_profile :: "BuildArgsOptions \<Rightarrow> string list" where
  "args_before_profile opts =
     [''agent'', ''run'']
     @ flag_pair ''--prompt'' (prompt opts)
     @ flag_pair ''--saved-prompt'' (savedPrompt opts)
     @ flag_pair ''--skill'' (skill opts)
     @ flag_pair ''--model'' (model opts)
     @ flag_pair ''--name'' (name opts)
     @ flag_pair ''--mcp'' (mcp opts)
     @ flag_pair ''--cwd'' (cwd opts)"

definition debug_flag :: "BuildArgsOptions \<Rightarrow> string list" where
  "debug_flag opts = (if debug opts then [''--debug''] else [])"

definition spec_buildArgs :: "BuildArgsOptions \<Rightarrow> string list" where
  "spec_buildArgs opts =
     args_before_profile opts
     @ profile_branch opts
     @ flag_pair ''--output-format'' (outputFormat opts)
     @ share_pairs (shareRecipients opts)
     @ debug_flag opts"

definition args_after_profile :: "BuildArgsOptions \<Rightarrow> string list" where
  "args_after_profile opts =
     flag_pair ''--output-format'' (outputFormat opts)
     @ share_pairs (shareRecipients opts)
     @ debug_flag opts"

text \<open>The index in the argument list at which the recipients' pairs begin.\<close>

definition share_offset :: "BuildArgsOptions \<Rightarrow> nat" where
  "share_offset opts =
     length (args_before_profile opts @ profile_branch opts
             @ flag_pair ''--output-format'' (outputFormat opts))"

text \<open>Every string the caller supplies: the nine string fields, then the recipients.\<close>

definition option_values :: "BuildArgsOptions \<Rightarrow> string list" where
  "option_values opts =
     [prompt opts, savedPrompt opts, skill opts, model opts, name opts, mcp opts, cwd opts,
      profile opts, outputFormat opts] @ shareRecipients opts"

text \<open>\<open>has_pair a b xs\<close>: somewhere in \<open>xs\<close> the token \<open>a\<close> is immediately followed by \<open>b\<close>.\<close>

fun has_pair :: "'a \<Rightarrow> 'a \<Rightarrow> 'a list \<Rightarrow> bool" where
  "has_pair a b (x # y # ys) = ((x = a \<and> y = b) \<or> has_pair a b (y # ys))"
| "has_pair a b [x] = False"
| "has_pair a b [] = False"

subsection \<open>The outside world\<close>

text \<open>
  The response of the HTTP client as far as the code reads it:
  \<^verbatim>\<open>response.message.statusCode\<close> (a number or \<^verbatim>\<open>undefined\<close>) and
  \<^verbatim>\<open>response.message.headers['location']\<close> (a string or \<^verbatim>\<open>undefined\<close>).
\<close>

record http_response =
  statusCode :: "nat option"
  location :: "string option"

text \<open>
  What the collaborators answer. A call that can throw returns a sum. \<open>tc_find\<close>
  answers the empty string when the cache has no entry. \<open>new_URL_pathname s\<close> is
  \<^verbatim>\<open>new URL(s).pathname\<close>, and \<open>None\<close> when the constructor rejects \<open>s\<close>.
  \<open>exec_getExecOutput\<close> takes the command, its arguments and the value given to the
  variable \<^verbatim>\<open>WARP_API_KEY\<close>, and answers the captured standard output.
\<close>

record env =
  process_platform :: string
  process_arch :: string
  process_env :: "string \<Rightarrow> string option"
  os_homedir :: string
  path_join :: "string list \<Rightarrow> string"
  fs_existsSync :: "string \<Rightarrow> bool"
  fs_readFileSync :: "string \<Rightarrow> error + string"
  core_getInput :: "string \<Rightarrow> string"
  core_getMultilineInput :: "string \<Rightarrow> string list"
  core_isDebug :: bool
  http_get :: "string \<Rightarrow> error + http_response"
  new_URL_pathname :: "string \<Rightarrow> string option"
  tc_find :: "string \<Rightarrow> string \<Rightarrow> string"
  tc_downloadTool :: "string \<Rightarrow> error + string"
  tc_cacheFile :: "string \<Rightarrow> string \<Rightarrow> string \<Rightarrow> string \<Rightarrow> error + string"
  exec_exec :: "string \<Rightarrow> string list \<Rightarrow> error + unit"
  exec_getExecOutput :: "string \<Rightarrow> string list \<Rightarrow> string \<Rightarrow> error + string"

text \<open>The calls that act on the outside world, in the order the run makes them.\<close>

datatype event =
    HttpGet string
  | TcFind string string
  | TcDownloadTool string
  | TcCacheFile string string string string
  | Exec string "string list"
  | GetExecOutput string "string list" string
  | FsExistsSync string
  | FsReadFileSync string
  | CoreInfo string
  | CoreDebug string
  | CoreWarning string
  | CoreStartGroup string
  | CoreEndGroup
  | CoreSetOutput string string

fun is_network :: "event \<Rightarrow> bool" where
  "is_network (HttpGet _) = True"
| "is_network (TcDownloadTool _) = True"
| "is_network _ = False"

fun is_process :: "event \<Rightarrow> bool" where
  "is_process (Exec _ _) = True"
| "is_process (GetExecOutput _ _ _) = True"
| "is_process _ = False"

subsection \<open>String helpers\<close>

text \<open>A number inside a template literal prints in decimal, \<^verbatim>\<open>undefined\<close> by its name.\<close>

fun string_of_nat :: "nat \<Rightarrow> string" where
  "string_of_nat n =
     (if n < 10 then [''0123456789'' ! n]
      else string_of_nat (n div 10) @ [''0123456789'' ! (n mod 10)])"

definition string_of_status :: "nat option \<Rightarrow> string" where
  "string_of_status st = (case st of None \<Rightarrow> ''undefined'' | Some n \<Rightarrow> string_of_nat n)"

text \<open>\<^verbatim>\<open>s.split(sep)\<close> for a separator of one character: the empty string gives one empty piece.\<close>

fun js_split :: "char \<Rightarrow> string \<Rightarrow> string list" where
  "js_split sep [] = [[]]"
| "js_split sep (c # cs) =
     (if c = sep then [] # js_split sep cs
      else (case js_split sep cs of
              [] \<Rightarrow> [[c]]
            | w # ws \<Rightarrow> (c # w) # ws))"

definition startsWith :: "string \<Rightarrow> string \<Rightarrow> bool" where
  "startsWith s p = (take (length p) s = p)"

subsection \<open>\<^verbatim>\<open>downloadOzDeb\<close> (lines 159-224)\<close>

text \<open>Lines 160-178: the platform check, then the two architecture names.\<close>

definition hostArch :: "env \<Rightarrow> error + string \<times> string" where
  "hostArch env =
     (if process_platform env \<noteq> ''linux'' then
        Inl (Error (''Only Linux runners are supported - the current platform is ''
                    @ process_platform env))
      else if process_arch env = ''x64'' then Inr (''x86_64'', ''amd64'')
      else if process_arch env = ''arm64'' then Inr (''aarch64'', ''arm64'')
      else Inl (Error (''Unsupported architecture '' @ process_arch env)))"

text \<open>
  Lines 204-210: the pair \<^verbatim>\<open>(debVersion, version)\<close> after the normalisation of a
  version other than \<^verbatim>\<open>latest\<close>.
\<close>

definition normalizeVersion :: "string \<Rightarrow> string \<times> string" where
  "normalizeVersion version =
     (if startsWith version ''v'' then (drop 1 version, version)
      else (version, ''v'' @ version))"

text \<open>
  The two forms as the specification words them: the package version is the version with
  a leading \<^verbatim>\<open>v\<close> stripped, the tag version is the version with a leading \<^verbatim>\<open>v\<close>
  guaranteed, one being prefixed if absent.
\<close>

definition spec_package_version :: "string \<Rightarrow> string" where
  "spec_package_version version =
     (case version of [] \<Rightarrow> [] | c # cs \<Rightarrow> if c = CHR ''v'' then cs else version)"

definition spec_tag_version :: "string \<Rightarrow> string" where
  "spec_tag_version version =
     (case version of
        [] \<Rightarrow> ''v''
      | c # cs \<Rightarrow> if c = CHR ''v'' then version else CHR ''v'' # version)"

text \<open>
  The version behind a redirect as the specification words it: the path of the target is
  split at \<^verbatim>\<open>/\<close>, the empty segments are discarded, and the second segment, if there are
  two, is the version; otherwise the version stays \<^verbatim>\<open>latest\<close>.
\<close>

definition path_segments :: "string \<Rightarrow> string list" where
  "path_segments pathname = filter (\<lambda>c. c \<noteq> []) (js_split CHR ''/'' pathname)"

definition spec_latest_version :: "string \<Rightarrow> string" where
  "spec_latest_version pathname =
     (case path_segments pathname of
        _ # second # _ \<Rightarrow> second
      | _ \<Rightarrow> ''latest'')"

definition redirectEndpoint :: "string \<Rightarrow> string \<Rightarrow> string" where
  "redirectEndpoint arch channel =
     ''https://app.warp.dev/download/cli?os=linux&package=deb&arch='' @ arch
     @ ''&channel='' @ channel"

text \<open>
  Lines 180-212: the pair \<^verbatim>\<open>(debUrl, version)\<close> with which the function goes on to
  the cache, or the error thrown before.
\<close>

definition resolveDebUrl ::
  "env \<Rightarrow> string \<Rightarrow> string \<Rightarrow> string \<Rightarrow> string \<Rightarrow> event list
     \<Rightarrow> (error + string \<times> string) \<times> event list" where
  "resolveDebUrl env channel version arch debArch tr =
     (if version = ''latest'' then
        (let tr1 = tr @ [HttpGet (redirectEndpoint arch channel)] in
         case http_get env (redirectEndpoint arch channel) of
           Inl e \<Rightarrow> (Inl e, tr1)
         | Inr response \<Rightarrow>
             if statusCode response = Some 302 \<or> statusCode response = Some 301 then
               (case location response of
                  None \<Rightarrow> (Inl (Error ''Redirect location header missing''), tr1)
                | Some loc \<Rightarrow>
                    if \<not> truthy loc then
                      (Inl (Error ''Redirect location header missing''), tr1)
                    else
                      (case new_URL_pathname env loc of
                         None \<Rightarrow> (Inl (TypeError ''Invalid URL''), tr1)
                       | Some pathname \<Rightarrow>
                           (let pathComponents = filter truthy (js_split CHR ''/'' pathname);
                                version' = (if 2 \<le> length pathComponents
                                            then pathComponents ! 1 else version)
                            in (Inr (loc, version'),
                                tr1 @ [CoreInfo (''Latest version on '' @ channel
                                                 @ '' is '' @ version')]))))
             else
               (Inl (Error (''Expected redirect, got status ''
                            @ string_of_status (statusCode response))), tr1))
      else
        (case normalizeVersion version of
           (debVersion, version') \<Rightarrow>
             (Inr (''https://releases.warp.dev/'' @ channel @ ''/'' @ version' @ ''/oz_''
                   @ channel @ ''_'' @ debVersion @ ''_'' @ debArch @ ''.deb'', version'),
              tr)))"

text \<open>Lines 214-223: the cache lookup, and the download when the cache has no entry.\<close>

definition fetchDeb ::
  "env \<Rightarrow> string \<Rightarrow> string \<Rightarrow> string \<Rightarrow> event list \<Rightarrow> (error + string) \<times> event list" where
  "fetchDeb env channel version debUrl tr =
     (let cacheVersion = channel @ ''-'' @ version;
          cachedDeb = tc_find env ''oz'' cacheVersion;
          tr1 = tr @ [TcFind ''oz'' cacheVersion]
      in if \<not> truthy cachedDeb then
           (let tr2 = tr1 @ [CoreDebug (''Downloading from '' @ debUrl @ ''...''),
                            TcDownloadTool debUrl] in
            case tc_downloadTool env debUrl of
              Inl e \<Rightarrow> (Inl e, tr2)
            | Inr downloadedDeb \<Rightarrow>
                (let tr3 = tr2 @ [TcCacheFile downloadedDeb ''oz.deb'' ''oz'' cacheVersion] in
                 case tc_cacheFile env downloadedDeb ''oz.deb'' ''oz'' cacheVersion of
                   Inl e \<Rightarrow> (Inl e, tr3)
                 | Inr cachedDeb' \<Rightarrow> (Inr (path_join env [cachedDeb', ''oz.deb'']), tr3)))
         else
           (Inr (path_join env [cachedDeb, ''oz.deb'']),
            tr1 @ [CoreDebug ''Using cached .deb package'']))"

definition downloadOzDeb ::
  "env \<Rightarrow> string \<Rightarrow> string \<Rightarrow> event list \<Rightarrow> (error + string) \<times> event list" where
  "downloadOzDeb env channel version tr =
     (case hostArch env of
        Inl e \<Rightarrow> (Inl e, tr)
      | Inr (arch, debArch) \<Rightarrow>
          (case resolveDebUrl env channel version arch debArch tr of
             (Inl e, tr1) \<Rightarrow> (Inl e, tr1)
           | (Inr (debUrl, version'), tr1) \<Rightarrow> fetchDeb env channel version' debUrl tr1))"

subsection \<open>\<^verbatim>\<open>installOz\<close> (lines 148-155)\<close>

text \<open>
  \<^verbatim>\<open>core.group\<close> opens a group in the log, runs its body and closes the group also
  when the body throws. \<^verbatim>\<open>exec.exec\<close> throws when the command exits with a status
  other than zero.
\<close>

definition installOz :: "env \<Rightarrow> string \<Rightarrow> string \<Rightarrow> event list \<Rightarrow> (error + unit) \<times> event list" where
  "installOz env channel version tr =
     (case downloadOzDeb env channel version (tr @ [CoreStartGroup ''Installing Oz'']) of
        (Inl e, tr1) \<Rightarrow> (Inl e, tr1 @ [CoreEndGroup])
      | (Inr ozDeb, tr1) \<Rightarrow>
          (let tr2 = tr1 @ [Exec ''sudo'' [''dpkg'', ''-i'', ozDeb]] in
           case exec_exec env ''sudo'' [''dpkg'', ''-i'', ozDeb] of
             Inl e \<Rightarrow> (Inl e, tr2 @ [CoreEndGroup])
           | Inr _ \<Rightarrow>
               (let tr3 = tr2 @ [Exec ''sudo'' [''apt-get'', ''-f'', ''install'']] in
                case exec_exec env ''sudo'' [''apt-get'', ''-f'', ''install''] of
                  Inl e \<Rightarrow> (Inl e, tr3 @ [CoreEndGroup])
                | Inr _ \<Rightarrow> (Inr (), tr3 @ [CoreEndGroup]))))"

subsection \<open>\<^verbatim>\<open>logOzLogFile\<close> (lines 227-245)\<close>

definition logOzLogFile :: "env \<Rightarrow> string \<Rightarrow> event list \<Rightarrow> event list" where
  "logOzLogFile env channel tr =
     (let stateDir =
            (case process_env env ''XDG_STATE_DIR'' of
               None \<Rightarrow> path_join env [os_homedir env, ''.local'', ''state'']
             | Some d \<Rightarrow>
                 if truthy d then d else path_join env [os_homedir env, ''.local'', ''state'']);
          channelSuffix = (if channel = ''stable'' then [] else ''-'' @ channel);
          logFileName = (if channel = ''stable'' then ''warp.log''
                         else ''warp_'' @ channel @ ''.log'');
          warpLogPath = path_join env [stateDir, ''warp-terminal'' @ channelSuffix, logFileName];
          tr1 = tr @ [FsExistsSync warpLogPath]
      in if fs_existsSync env warpLogPath then
           (let tr2 = tr1 @ [CoreStartGroup ''Warp Logs'', FsReadFileSync warpLogPath] in
            case fs_readFileSync env warpLogPath of
              Inr logContents \<Rightarrow> tr2 @ [CoreInfo logContents, CoreEndGroup]
            | Inl e \<Rightarrow>
                tr2 @ [CoreWarning (''Failed to read warp.log: '' @ error_to_string e),
                       CoreEndGroup])
         else tr1 @ [CoreWarning (''warp.log not found at '' @ warpLogPath)])"

subsection \<open>\<^verbatim>\<open>runAgent\<close> (lines 12-64)\<close>

text \<open>
  Reading an input touches nothing outside, so the reads are no events. When the agent
  fails, the log file is shown and the error is thrown again.
\<close>

definition runAgent :: "env \<Rightarrow> event list \<Rightarrow> (error + unit) \<times> event list" where
  "runAgent env tr =
     (let channel = core_getInput env ''oz_channel'';
          prompt = core_getInput env ''prompt'';
          savedPrompt = core_getInput env ''saved_prompt'';
          skill = core_getInput env ''skill'';
          model = core_getInput env ''model'';
          name = core_getInput env ''name'';
          mcp = core_getInput env ''mcp''
      in if \<not> truthy prompt \<and> \<not> truthy savedPrompt \<and> \<not> truthy skill then
           (Inl (Error ''Either `prompt`, `saved_prompt`, or `skill` must be provided''), tr)
         else
           (let apiKey = core_getInput env ''warp_api_key'' in
            if \<not> truthy apiKey then
              (Inl (Error ''`warp_api_key` must be provided.''), tr)
            else
              (case resolveCommand channel of
                 Inl e \<Rightarrow> (Inl e, tr)
               | Inr command \<Rightarrow>
                   (case installOz env channel (core_getInput env ''oz_version'') tr of
                      (Inl e, tr1) \<Rightarrow> (Inl e, tr1)
                    | (Inr _, tr1) \<Rightarrow>
                        (let args = buildArgs
                               \<lparr>prompt = prompt, savedPrompt = savedPrompt, skill = skill,
                                model = model, name = name, mcp = mcp,
                                cwd = core_getInput env ''cwd'',
                                profile = core_getInput env ''profile'',
                                outputFormat = core_getInput env ''output_format'',
                                shareRecipients = core_getMultilineInput env ''share'',
                                debug = core_isDebug env\<rparr>;
                             tr2 = tr1 @ [GetExecOutput command args apiKey]
                         in case exec_getExecOutput env command args apiKey of
                              Inl e \<Rightarrow> (Inl e, logOzLogFile env channel tr2)
                            | Inr stdout \<Rightarrow>
                                (Inr (), tr2 @ [CoreSetOutput ''agent_output'' stdout]))))))"

subsection \<open>Example inputs\<close>

definition no_options :: BuildArgsOptions where
  "no_options =
     \<lparr>prompt = [], savedPrompt = [], skill = [], model = [], name = [], mcp = [], cwd = [],
      profile = [], outputFormat = [], shareRecipients = [], debug = False\<rparr>"

text \<open>\<^verbatim>\<open>path.join\<close> on segments that need no normalisation.\<close>

fun join_slash :: "string list \<Rightarrow> string" where
  "join_slash [] = ''.''"
| "join_slash [x] = x"
| "join_slash (x # y # ys) = x @ ''/'' @ join_slash (y # ys)"

text \<open>
  The \<^verbatim>\<open>URL\<close> constructor on the two shapes the examples use: \<^verbatim>\<open>https://host/path\<close>
  with a plain host and path has the path as its pathname, and a string without a scheme
  is rejected, the constructor being called with no base.
\<close>

definition example_pathname :: "string \<Rightarrow> string option" where
  "example_pathname s =
     (if startsWith s ''https://'' \<and> takeWhile (\<lambda>c. c \<noteq> CHR ''/'') (drop 8 s) \<noteq> []
      then Some (if dropWhile (\<lambda>c. c \<noteq> CHR ''/'') (drop 8 s) = [] then ''/''
                 else dropWhile (\<lambda>c. c \<noteq> CHR ''/'') (drop 8 s))
      else None)"

text \<open>
  A Linux runner on x64 with an empty cache, whose redirect endpoint answers 302 with
  the location of a release; prompt, credential and channel are given.
\<close>

definition example_inputs :: "string \<Rightarrow> string" where
  "example_inputs k =
     (if k = ''oz_channel'' then ''stable''
      else if k = ''oz_version'' then ''latest''
      else if k = ''prompt'' then ''fix the bug''
      else if k = ''warp_api_key'' then ''secret''
      else [])"

definition example_env :: env where
  "example_env =
     \<lparr>process_platform = ''linux'',
      process_arch = ''x64'',
      process_env = (\<lambda>_. None),
      os_homedir = ''/home/runner'',
      path_join = join_slash,
      fs_existsSync = (\<lambda>_. False),
      fs_readFileSync = (\<lambda>_. Inl (Error ''ENOENT'')),
      core_getInput = example_inputs,
      core_getMultilineInput = (\<lambda>_. []),
      core_isDebug = False,
      http_get = (\<lambda>_. Inr \<lparr>statusCode = Some 302,
         location = Some ''https://releases.warp.dev/stable/v0.1.2/oz_stable_0.1.2_amd64.deb''\<rparr>),
      new_URL_pathname = example_pathname,
      tc_find = (\<lambda>_ _. []),
      tc_downloadTool = (\<lambda>_. Inr ''/tmp/download''),
      tc_cacheFile = (\<lambda>_ _ _ _. Inr ''/opt/hostedtoolcache/oz''),
      exec_exec = (\<lambda>_ _. Inr ()),
      exec_getExecOutput = (\<lambda>_ _ _. Inr ''done'')\<rparr>"

text \<open>The same runner with the package already in the cache.\<close>

definition example_env_cached :: env where
  "example_env_cached = example_env\<lparr>tc_find := (\<lambda>_ _. ''/opt/hostedtoolcache/oz'')\<rparr>"

text \<open>The same runner behind an endpoint that redirects to a relative reference.\<close>

definition example_env_relative :: env where
  "example_env_relative =
     example_env\<lparr>http_get := (\<lambda>_. Inr \<lparr>statusCode = Some 302,
        location = Some ''/stable/v0.1.2/oz_stable_0.1.2_amd64.deb''\<rparr>)\<rparr>"

text \<open>Options whose prompt is the text of a flag.\<close>

definition sandboxed_prompt_options :: BuildArgsOptions where
  "sandboxed_prompt_options = no_options\<lparr>prompt := ''--sandboxed'', profile := ''prod''\<rparr>"

definition share_prompt_options :: BuildArgsOptions where
  "share_prompt_options = no_options\<lparr>prompt := ''--share''\<rparr>"

text \<open>The same runner behind an endpoint that redirects to the root of the host.\<close>

definition example_env_root :: env where
  "example_env_root =
     example_env\<lparr>http_get := (\<lambda>_. Inr \<lparr>statusCode = Some 301,
        location = Some ''https://releases.warp.dev''\<rparr>)\<rparr>"

text \<open>A run without prompt, saved prompt and skill, and a run without credential.\<close>

definition example_env_no_prompt :: env where
  "example_env_no_prompt =
     example_env\<lparr>core_getInput :=
        (\<lambda>k. if k = ''prompt'' then [] else example_inputs k)\<rparr>"

definition example_env_no_key :: env where
  "example_env_no_key =
     example_env\<lparr>core_getInput :=
        (\<lambda>k. if k = ''warp_api_key'' then [] else example_inputs k)\<rparr>"

section \<open>Properties\<close>

subsection \<open>The argument builder\<close>

lemma push_shares_append: "push_shares args rs = args @ share_pairs rs"
  by (induction rs arbitrary: args) (simp_all add: share_pairs_def push_def)

lemma buildArgs_unfold:
  "buildArgs opts =
     args_before_profile opts @ profile_branch opts
     @ flag_pair ''--output-format'' (outputFormat opts)
     @ share_pairs (shareRecipients opts) @ debug_flag opts"
  by (simp add: buildArgs_def Let_def truthy_def push_def push_shares_append
      args_before_profile_def profile_branch_def flag_pair_def debug_flag_def)

text \<open>
  C1. For every options record \<^verbatim>\<open>buildArgs\<close> returns exactly the documented sequence:
  \<^verbatim>\<open>agent\<close>, \<^verbatim>\<open>run\<close>; the flag and value of prompt, saved prompt, skill, model, name,
  MCP configuration and working directory, in this order, each if and only if the field
  is not empty; the profile or sandboxed branch; the output format if not empty; one
  \<^verbatim>\<open>--share\<close> pair per recipient in input order; \<^verbatim>\<open>--debug\<close> if and only if debug is
  set.
\<close>

theorem buildArgs_is_documented_sequence:
  "buildArgs opts =
     [''agent'', ''run'']
     @ (if prompt opts = [] then [] else [''--prompt'', prompt opts])
     @ (if savedPrompt opts = [] then [] else [''--saved-prompt'', savedPrompt opts])
     @ (if skill opts = [] then [] else [''--skill'', skill opts])
     @ (if model opts = [] then [] else [''--model'', model opts])
     @ (if name opts = [] then [] else [''--name'', name opts])
     @ (if mcp opts = [] then [] else [''--mcp'', mcp opts])
     @ (if cwd opts = [] then [] else [''--cwd'', cwd opts])
     @ (if profile opts = [] then [''--sandboxed''] else [''--profile'', profile opts])
     @ (if outputFormat opts = [] then [] else [''--output-format'', outputFormat opts])
     @ concat (map (\<lambda>recipient. [''--share'', recipient]) (shareRecipients opts))
     @ (if debug opts then [''--debug''] else [])
   \<and> buildArgs opts = spec_buildArgs opts"
  unfolding spec_buildArgs_def buildArgs_unfold
  by (simp add: args_before_profile_def profile_branch_def flag_pair_def debug_flag_def
      share_pairs_def)

theorem buildArgs_is_documented_sequence_witness:
  "buildArgs \<lparr>prompt = ''p'', savedPrompt = [], skill = ''s'', model = [], name = [],
      mcp = [], cwd = ''/w'', profile = [], outputFormat = ''json'',
      shareRecipients = [''a@x.com'', [], ''a@x.com''], debug = True\<rparr>
   = [''agent'', ''run'', ''--prompt'', ''p'', ''--skill'', ''s'', ''--cwd'', ''/w'',
      ''--sandboxed'', ''--output-format'', ''json'', ''--share'', ''a@x.com'',
      ''--share'', [], ''--share'', ''a@x.com'', ''--debug'']"
  using buildArgs_is_documented_sequence
    [of "\<lparr>prompt = ''p'', savedPrompt = [], skill = ''s'', model = [], name = [],
      mcp = [], cwd = ''/w'', profile = [], outputFormat = ''json'',
      shareRecipients = [''a@x.com'', [], ''a@x.com''], debug = True\<rparr>"]
  by simp

lemma set_flag_pair: "set (flag_pair f v) = (if v = [] then {} else {f, v})"
  by (simp add: flag_pair_def)

lemma set_share_pairs: "set (share_pairs rs) = (if rs = [] then {} else insert ''--share'' (set rs))"
  by (induction rs) (auto simp: share_pairs_def)

lemma has_pair_append:
  "has_pair a b (xs @ ys) =
     (has_pair a b xs \<or> has_pair a b ys \<or> (xs \<noteq> [] \<and> ys \<noteq> [] \<and> last xs = a \<and> hd ys = b))"
proof (induction a b xs rule: has_pair.induct)
  case (1 a b x y ys)
  then show ?case by auto
next
  case (2 a b x)
  then show ?case by (cases ys) auto
next
  case (3 a b)
  then show ?case by simp
qed

lemma has_pair_mem: "has_pair a b xs \<Longrightarrow> a \<in> set xs \<and> b \<in> set xs"
  by (induction a b xs rule: has_pair.induct) auto

lemma has_pair_share_pairs:
  "has_pair a b (share_pairs rs) \<Longrightarrow> a = ''--share'' \<or> b = ''--share''"
proof (induction rs)
  case Nil
  then show ?case by (simp add: share_pairs_def)
next
  case (Cons r rs)
  then show ?case by (cases rs) (auto simp: share_pairs_def)
qed

lemma count_flag_pair:
  "f \<noteq> x \<Longrightarrow> count_list (flag_pair f v) x = (if v = x \<and> x \<noteq> [] then 1 else 0)"
  by (auto simp add: flag_pair_def)

lemma count_share_pairs:
  "count_list (share_pairs rs) ''--share'' = length rs + count_list rs ''--share''"
  by (induction rs) (simp_all add: share_pairs_def)

lemma length_share_pairs: "length (share_pairs rs) = 2 * length rs"
  by (induction rs) (simp_all add: share_pairs_def)

lemma nth_share_pairs:
  "i < length rs \<Longrightarrow> share_pairs rs ! (2 * i) = ''--share'' \<and> share_pairs rs ! (2 * i + 1) = rs ! i"
proof (induction rs arbitrary: i)
  case Nil
  then show ?case by simp
next
  case (Cons r rs)
  show ?case
  proof (cases i)
    case 0
    then show ?thesis by (simp add: share_pairs_def)
  next
    case (Suc j)
    with Cons.prems have "j < length rs" by simp
    from Cons.IH[OF this] Suc show ?thesis by (simp add: share_pairs_def)
  qed
qed

lemma empty_notin_before: "[] \<notin> set (args_before_profile opts)"
  by (simp add: args_before_profile_def set_flag_pair)

lemma flag_pair_mem: "x \<in> set (flag_pair f v) \<Longrightarrow> x = f \<or> x = v"
  by (simp add: flag_pair_def split: if_splits)

lemma share_pairs_mem: "x \<in> set (share_pairs rs) \<Longrightarrow> x = ''--share'' \<or> x \<in> set rs"
  by (simp add: set_share_pairs split: if_splits)

lemma debug_flag_mem: "x \<in> set (debug_flag opts) \<Longrightarrow> x = ''--debug''"
  by (simp add: debug_flag_def split: if_splits)

lemma buildArgs_tokens:
  assumes "x \<in> set (buildArgs opts)"
  shows "x \<in> {''agent'', ''run'', ''--prompt'', ''--saved-prompt'', ''--skill'', ''--model'',
               ''--name'', ''--mcp'', ''--cwd'', ''--output-format'', ''--share'', ''--debug''}
         \<or> x \<in> set (profile_branch opts) \<or> x \<in> set (option_values opts)"
  using assms unfolding buildArgs_unfold args_before_profile_def option_values_def
  by (auto dest!: flag_pair_mem share_pairs_mem debug_flag_mem)

lemma no_profile_pair:
  assumes "profile opts = []"
  shows "\<not> has_pair ''--profile'' [] (buildArgs opts)"
proof -
  let ?pre = "args_before_profile opts @ profile_branch opts
              @ flag_pair ''--output-format'' (outputFormat opts)"
  let ?rest = "share_pairs (shareRecipients opts) @ debug_flag opts"
  have pre: "[] \<notin> set ?pre"
    using assms by (simp add: empty_notin_before profile_branch_def set_flag_pair)
  have sp: "\<not> has_pair ''--profile'' [] (share_pairs (shareRecipients opts))"
    using has_pair_share_pairs by fastforce
  have dbg: "[] \<notin> set (debug_flag opts)" by (simp add: debug_flag_def)
  have hd_rest: "?rest \<noteq> [] \<Longrightarrow> hd ?rest \<noteq> []"
    by (cases "shareRecipients opts") (auto simp: share_pairs_def debug_flag_def)
  have rest: "\<not> has_pair ''--profile'' [] ?rest"
    using sp dbg has_pair_mem[of "''--profile''" "[]" "debug_flag opts"]
    by (auto simp add: has_pair_append debug_flag_def)
  have "\<not> has_pair ''--profile'' [] (?pre @ ?rest)"
    using pre rest hd_rest has_pair_mem[of "''--profile''" "[]" ?pre]
    unfolding has_pair_append[of _ _ ?pre ?rest] by blast
  then show ?thesis by (simp add: buildArgs_unfold)
qed

lemma profile_pair:
  assumes "profile opts \<noteq> []"
  shows "has_pair ''--profile'' (profile opts) (buildArgs opts)"
proof -
  have "has_pair ''--profile'' (profile opts) (profile_branch opts)"
    using assms by (simp add: profile_branch_def)
  then show ?thesis by (simp add: buildArgs_unfold has_pair_append)
qed

text \<open>
  C2, as amended. For every options record the list holds the pair \<^verbatim>\<open>--profile\<close>,
  profile if and only if the profile is not empty, and it holds \<^verbatim>\<open>--sandboxed\<close> whenever
  the profile is empty. When the profile is not empty, \<^verbatim>\<open>--sandboxed\<close> is absent provided
  no string the caller supplies is itself \<^verbatim>\<open>--sandboxed\<close>. The list is the tokens
  before the branch, the branch, and the tokens after it, and the branch is exactly one of
  the two alternatives.
\<close>

theorem profile_or_sandboxed:
  "(has_pair ''--profile'' (profile opts) (buildArgs opts) \<longleftrightarrow> profile opts \<noteq> [])
   \<and> (profile opts = [] \<longrightarrow> ''--sandboxed'' \<in> set (buildArgs opts))
   \<and> (profile opts \<noteq> [] \<and> ''--sandboxed'' \<notin> set (option_values opts)
        \<longrightarrow> ''--sandboxed'' \<notin> set (buildArgs opts))
   \<and> buildArgs opts = args_before_profile opts @ profile_branch opts @ args_after_profile opts
   \<and> (profile_branch opts = [''--profile'', profile opts] \<longleftrightarrow> profile opts \<noteq> [])
   \<and> (profile_branch opts = [''--sandboxed''] \<longleftrightarrow> profile opts = [])"
proof (intro conjI)
  show "has_pair ''--profile'' (profile opts) (buildArgs opts) \<longleftrightarrow> profile opts \<noteq> []"
    using no_profile_pair[of opts] profile_pair[of opts] by auto
  show "profile opts = [] \<longrightarrow> ''--sandboxed'' \<in> set (buildArgs opts)"
    by (simp add: buildArgs_unfold profile_branch_def)
  show "profile opts \<noteq> [] \<and> ''--sandboxed'' \<notin> set (option_values opts)
        \<longrightarrow> ''--sandboxed'' \<notin> set (buildArgs opts)"
  proof (intro impI notI, elim conjE)
    assume p: "profile opts \<noteq> []" and nv: "''--sandboxed'' \<notin> set (option_values opts)"
      and mem: "''--sandboxed'' \<in> set (buildArgs opts)"
    have "profile opts \<in> set (option_values opts)"
      by (simp add: option_values_def)
    with nv have "profile opts \<noteq> ''--sandboxed''" by auto
    with buildArgs_tokens[OF mem] p nv show False
      by (simp add: profile_branch_def)
  qed
  show "buildArgs opts = args_before_profile opts @ profile_branch opts @ args_after_profile opts"
    by (simp add: buildArgs_unfold args_after_profile_def)
  show "profile_branch opts = [''--profile'', profile opts] \<longleftrightarrow> profile opts \<noteq> []"
    by (simp add: profile_branch_def)
  show "profile_branch opts = [''--sandboxed''] \<longleftrightarrow> profile opts = []"
    by (simp add: profile_branch_def)
qed

text \<open>
  C2 as stated fails where a value is the text of the flag: with the prompt
  \<^verbatim>\<open>--sandboxed\<close> and the profile \<^verbatim>\<open>prod\<close> the list holds \<^verbatim>\<open>--sandboxed\<close> although the
  profile is not empty.
\<close>

theorem sandboxed_counterexample:
  "profile sandboxed_prompt_options \<noteq> []
   \<and> ''--sandboxed'' \<in> set (buildArgs sandboxed_prompt_options)
   \<and> buildArgs sandboxed_prompt_options
       = [''agent'', ''run'', ''--prompt'', ''--sandboxed'', ''--profile'', ''prod'']"
  by (simp add: sandboxed_prompt_options_def no_options_def buildArgs_def truthy_def push_def)

theorem profile_or_sandboxed_witness:
  "profile (no_options\<lparr>profile := ''prod''\<rparr>) \<noteq> []
   \<and> ''--sandboxed'' \<notin> set (option_values (no_options\<lparr>profile := ''prod''\<rparr>))
   \<and> ''--sandboxed'' \<notin> set (buildArgs (no_options\<lparr>profile := ''prod''\<rparr>))
   \<and> has_pair ''--profile'' ''prod'' (buildArgs (no_options\<lparr>profile := ''prod''\<rparr>))
   \<and> profile no_options = []
   \<and> ''--sandboxed'' \<in> set (buildArgs no_options)
   \<and> \<not> has_pair ''--profile'' [] (buildArgs no_options)"
  using profile_or_sandboxed[of "no_options\<lparr>profile := ''prod''\<rparr>"]
        profile_or_sandboxed[of no_options]
  by (simp add: no_options_def option_values_def buildArgs_def truthy_def push_def
      args_before_profile_def args_after_profile_def profile_branch_def flag_pair_def
      share_pairs_def debug_flag_def)

subsection \<open>The recipients\<close>

lemma count_before:
  "count_list (args_before_profile opts) ''--share''
     = count_list [prompt opts, savedPrompt opts, skill opts, model opts, name opts, mcp opts,
                   cwd opts] ''--share''"
  by (simp add: args_before_profile_def count_flag_pair)

text \<open>
  C10, as amended. For every options record, every recipient, the empty string included,
  contributes \<^verbatim>\<open>--share\<close> immediately followed by the recipient, at the positions
  \<open>share_offset opts + 2 * i\<close> and the next. The number of \<^verbatim>\<open>--share\<close> tokens in the
  list is the number of recipients plus the number of supplied strings that are themselves
  \<^verbatim>\<open>--share\<close>; it is the number of recipients when no supplied string is \<^verbatim>\<open>--share\<close>.
\<close>

theorem share_tokens:
  "(\<forall>i < length (shareRecipients opts).
       buildArgs opts ! (share_offset opts + 2 * i) = ''--share''
     \<and> buildArgs opts ! (share_offset opts + 2 * i + 1) = shareRecipients opts ! i)
   \<and> count_list (buildArgs opts) ''--share''
       = length (shareRecipients opts) + count_list (option_values opts) ''--share''
   \<and> (''--share'' \<notin> set (option_values opts)
        \<longrightarrow> count_list (buildArgs opts) ''--share'' = length (shareRecipients opts))"
proof (intro conjI allI impI)
  fix i assume i: "i < length (shareRecipients opts)"
  let ?pre = "args_before_profile opts @ profile_branch opts
              @ flag_pair ''--output-format'' (outputFormat opts)"
  have split: "buildArgs opts = ?pre @ (share_pairs (shareRecipients opts) @ debug_flag opts)"
    by (simp add: buildArgs_unfold)
  have len: "2 * i + 1 < length (share_pairs (shareRecipients opts))"
    using i by (simp add: length_share_pairs)
  have a: "buildArgs opts ! (length ?pre + 2 * i) = share_pairs (shareRecipients opts) ! (2 * i)"
    unfolding split nth_append_length_plus using len by (simp add: nth_append)
  have b: "buildArgs opts ! (length ?pre + (2 * i + 1))
             = share_pairs (shareRecipients opts) ! (2 * i + 1)"
    unfolding split nth_append_length_plus using len by (simp add: nth_append)
  show "buildArgs opts ! (share_offset opts + 2 * i) = ''--share''"
    using a nth_share_pairs[OF i] by (simp add: share_offset_def)
  show "buildArgs opts ! (share_offset opts + 2 * i + 1) = shareRecipients opts ! i"
    using b nth_share_pairs[OF i] by (simp add: share_offset_def add.assoc)
next
  show cnt: "count_list (buildArgs opts) ''--share''
       = length (shareRecipients opts) + count_list (option_values opts) ''--share''"
    unfolding buildArgs_unfold
    by (simp add: count_before count_flag_pair count_share_pairs option_values_def
        profile_branch_def debug_flag_def)
  assume "''--share'' \<notin> set (option_values opts)"
  then have "count_list (option_values opts) ''--share'' = 0"
    by (simp add: count_list_0_iff)
  with cnt show "count_list (buildArgs opts) ''--share'' = length (shareRecipients opts)"
    by simp
qed

text \<open>
  C10 as stated fails where a value is the text of the flag: with the prompt
  \<^verbatim>\<open>--share\<close> and no recipient the list holds one \<^verbatim>\<open>--share\<close> token.
\<close>

theorem share_count_counterexample:
  "shareRecipients share_prompt_options = []
   \<and> buildArgs share_prompt_options = [''agent'', ''run'', ''--prompt'', ''--share'', ''--sandboxed'']
   \<and> count_list (buildArgs share_prompt_options) ''--share'' = 1"
  by (simp add: share_prompt_options_def no_options_def buildArgs_def truthy_def push_def)

theorem share_tokens_witness:
  "''--share'' \<notin> set (option_values (no_options\<lparr>shareRecipients := [''a@x.com'', []]\<rparr>))
   \<and> count_list (buildArgs (no_options\<lparr>shareRecipients := [''a@x.com'', []]\<rparr>)) ''--share'' = 2
   \<and> buildArgs (no_options\<lparr>shareRecipients := [''a@x.com'', []]\<rparr>) ! (3 + 2 * 1) = ''--share''
   \<and> buildArgs (no_options\<lparr>shareRecipients := [''a@x.com'', []]\<rparr>) ! (3 + 2 * 1 + 1) = []"
  using share_tokens[of "no_options\<lparr>shareRecipients := [''a@x.com'', []]\<rparr>"]
  by (simp add: no_options_def option_values_def share_offset_def args_before_profile_def
      profile_branch_def flag_pair_def buildArgs_def truthy_def push_def)

subsection \<open>The channel resolver\<close>

text \<open>
  C3. \<^verbatim>\<open>resolveCommand\<close> returns \<^verbatim>\<open>oz\<close> for the channel \<^verbatim>\<open>stable\<close> and
  \<^verbatim>\<open>oz-preview\<close> for \<^verbatim>\<open>preview\<close>; for every other channel, the empty string
  included, it fails with the message \<^verbatim>\<open>Unsupported channel\<close> followed by the channel.
  It has no side effects: it neither reads the environment nor extends a trace.
\<close>

theorem resolveCommand_cases:
  "resolveCommand ''stable'' = Inr ''oz''
   \<and> resolveCommand ''preview'' = Inr ''oz-preview''
   \<and> (\<forall>s. s \<noteq> ''stable'' \<and> s \<noteq> ''preview''
          \<longrightarrow> resolveCommand s = Inl (Error (''Unsupported channel '' @ s)))
   \<and> resolveCommand [] = Inl (Error ''Unsupported channel '')"
  by (simp add: resolveCommand_def)

theorem resolveCommand_cases_witness:
  "''beta'' \<noteq> ''stable'' \<and> ''beta'' \<noteq> ''preview''
   \<and> resolveCommand ''beta'' = Inl (Error ''Unsupported channel beta'')"
  using resolveCommand_cases by simp


subsection \<open>Package location: concrete versions and the host check\<close>

lemma normalizeVersion_spec:
  "normalizeVersion version = (spec_package_version version, spec_tag_version version)"
  by (cases version)
     (simp_all add: normalizeVersion_def startsWith_def spec_package_version_def
        spec_tag_version_def)

lemma downloadOzDeb_phases:
  assumes "hostArch env = Inr (arch, debArch)"
  shows "downloadOzDeb env channel version tr =
     (case resolveDebUrl env channel version arch debArch tr of
        (Inl e, tr1) \<Rightarrow> (Inl e, tr1)
      | (Inr (debUrl, version'), tr1) \<Rightarrow> fetchDeb env channel version' debUrl tr1)"
  using assms by (simp add: downloadOzDeb_def)

text \<open>
  C4. For every version other than \<^verbatim>\<open>latest\<close>, on a supported host, the version is
  normalised to the package version (a leading \<^verbatim>\<open>v\<close> stripped) and the tag version (a
  leading \<^verbatim>\<open>v\<close> guaranteed), so \<^verbatim>\<open>1.2.3\<close> and \<^verbatim>\<open>v1.2.3\<close> both give \<^verbatim>\<open>1.2.3\<close> and
  \<^verbatim>\<open>v1.2.3\<close>; the download URL is the releases host, the channel, the tag version and the
  file \<^verbatim>\<open>oz_<channel>_<package-version>_<package-arch>.deb\<close>, and the function goes on to
  the cache with this URL and the tag version, having touched nothing.
\<close>

theorem concrete_version_url:
  assumes "version \<noteq> ''latest''" and "hostArch env = Inr (arch, debArch)"
  shows "normalizeVersion version = (spec_package_version version, spec_tag_version version)
     \<and> normalizeVersion ''1.2.3'' = (''1.2.3'', ''v1.2.3'')
     \<and> normalizeVersion ''v1.2.3'' = (''1.2.3'', ''v1.2.3'')
     \<and> resolveDebUrl env channel version arch debArch tr =
         (Inr (''https://releases.warp.dev'' @ ''/'' @ channel @ ''/'' @ spec_tag_version version
               @ ''/oz_'' @ channel @ ''_'' @ spec_package_version version @ ''_'' @ debArch
               @ ''.deb'', spec_tag_version version), tr)
     \<and> downloadOzDeb env channel version tr =
         fetchDeb env channel (spec_tag_version version)
           (''https://releases.warp.dev'' @ ''/'' @ channel @ ''/'' @ spec_tag_version version
            @ ''/oz_'' @ channel @ ''_'' @ spec_package_version version @ ''_'' @ debArch
            @ ''.deb'') tr"
proof -
  have r: "resolveDebUrl env channel version arch debArch tr =
         (Inr (''https://releases.warp.dev'' @ ''/'' @ channel @ ''/'' @ spec_tag_version version
               @ ''/oz_'' @ channel @ ''_'' @ spec_package_version version @ ''_'' @ debArch
               @ ''.deb'', spec_tag_version version), tr)"
    using assms(1) by (simp add: resolveDebUrl_def normalizeVersion_spec)
  have "normalizeVersion ''1.2.3'' = (''1.2.3'', ''v1.2.3'')"
    and "normalizeVersion ''v1.2.3'' = (''1.2.3'', ''v1.2.3'')"
    by (simp_all add: normalizeVersion_def startsWith_def)
  then show ?thesis
    using r by (simp add: downloadOzDeb_phases[OF assms(2)] normalizeVersion_spec)
qed

theorem concrete_version_url_witness:
  "''v1.2.3'' \<noteq> ''latest'' \<and> hostArch example_env = Inr (''x86_64'', ''amd64'')
   \<and> resolveDebUrl example_env ''stable'' ''v1.2.3'' ''x86_64'' ''amd64'' [] =
        (Inr (''https://releases.warp.dev/stable/v1.2.3/oz_stable_1.2.3_amd64.deb'', ''v1.2.3''), [])"
proof -
  have v: "''v1.2.3'' \<noteq> ''latest''" by simp
  have h: "hostArch example_env = Inr (''x86_64'', ''amd64'')"
    by (simp add: hostArch_def example_env_def)
  show ?thesis
    using v h concrete_version_url[OF v h, of "''stable''" "[]"]
    by (simp add: spec_tag_version_def spec_package_version_def)
qed

text \<open>
  C9. For every version other than \<^verbatim>\<open>latest\<close> the tag version is \<^verbatim>\<open>v\<close> followed by the
  package version, whether or not the input began with \<^verbatim>\<open>v\<close>; of several leading
  \<^verbatim>\<open>v\<close> only one is stripped. These two are the versions the download URL is made of.
\<close>

theorem tag_is_v_package:
  assumes "version \<noteq> ''latest''"
  shows "snd (normalizeVersion version) = ''v'' @ fst (normalizeVersion version)
     \<and> resolveDebUrl env channel version arch debArch tr =
         (Inr (''https://releases.warp.dev/'' @ channel @ ''/'' @ snd (normalizeVersion version)
               @ ''/oz_'' @ channel @ ''_'' @ fst (normalizeVersion version) @ ''_'' @ debArch
               @ ''.deb'', snd (normalizeVersion version)), tr)"
proof
  show "snd (normalizeVersion version) = ''v'' @ fst (normalizeVersion version)"
    by (cases version) (simp_all add: normalizeVersion_def startsWith_def)
  show "resolveDebUrl env channel version arch debArch tr =
         (Inr (''https://releases.warp.dev/'' @ channel @ ''/'' @ snd (normalizeVersion version)
               @ ''/oz_'' @ channel @ ''_'' @ fst (normalizeVersion version) @ ''_'' @ debArch
               @ ''.deb'', snd (normalizeVersion version)), tr)"
    using assms by (simp add: resolveDebUrl_def case_prod_beta)
qed

theorem tag_is_v_package_witness:
  "''vv1.2.3'' \<noteq> ''latest''
   \<and> normalizeVersion ''vv1.2.3'' = (''v1.2.3'', ''vv1.2.3'')
   \<and> snd (normalizeVersion ''vv1.2.3'') = ''v'' @ fst (normalizeVersion ''vv1.2.3'')"
proof -
  have v: "''vv1.2.3'' \<noteq> ''latest''" by simp
  show ?thesis
    using v tag_is_v_package[OF v] by (simp add: normalizeVersion_def startsWith_def)
qed

text \<open>
  C7. On a platform other than Linux, package location fails with the platform error; on
  Linux with an architecture other than x64 and arm64 it fails with the architecture
  error. In both cases the trace is the one it was given: no HTTP request, and no other
  call, comes before the failure.
\<close>

theorem unsupported_host_fails_first:
  "(process_platform env \<noteq> ''linux'' \<longrightarrow>
      downloadOzDeb env channel version tr =
        (Inl (Error (''Only Linux runners are supported - the current platform is ''
                     @ process_platform env)), tr))
   \<and> (process_platform env = ''linux'' \<and> process_arch env \<noteq> ''x64''
        \<and> process_arch env \<noteq> ''arm64'' \<longrightarrow>
      downloadOzDeb env channel version tr =
        (Inl (Error (''Unsupported architecture '' @ process_arch env)), tr))
   \<and> (process_platform env \<noteq> ''linux'' \<or> (process_arch env \<noteq> ''x64''
        \<and> process_arch env \<noteq> ''arm64'') \<longrightarrow>
      snd (downloadOzDeb env channel version tr) = tr
      \<and> filter is_network (snd (downloadOzDeb env channel version tr)) = filter is_network tr)"
  by (simp add: downloadOzDeb_def hostArch_def)

theorem unsupported_host_fails_first_witness:
  "process_platform (example_env\<lparr>process_platform := ''darwin''\<rparr>) \<noteq> ''linux''
   \<and> downloadOzDeb (example_env\<lparr>process_platform := ''darwin''\<rparr>) ''stable'' ''latest'' [] =
       (Inl (Error ''Only Linux runners are supported - the current platform is darwin''), [])
   \<and> process_platform (example_env\<lparr>process_arch := ''ia32''\<rparr>) = ''linux''
   \<and> process_arch (example_env\<lparr>process_arch := ''ia32''\<rparr>) \<noteq> ''x64''
   \<and> process_arch (example_env\<lparr>process_arch := ''ia32''\<rparr>) \<noteq> ''arm64''
   \<and> downloadOzDeb (example_env\<lparr>process_arch := ''ia32''\<rparr>) ''stable'' ''latest'' [] =
       (Inl (Error ''Unsupported architecture ia32''), [])"
  using unsupported_host_fails_first[of "example_env\<lparr>process_platform := ''darwin''\<rparr>"
          "''stable''" "''latest''" "[]"]
        unsupported_host_fails_first[of "example_env\<lparr>process_arch := ''ia32''\<rparr>"
          "''stable''" "''latest''" "[]"]
  by (simp add: example_env_def)


subsection \<open>The latest version\<close>

lemma spec_latest_version_code:
  "(if 2 \<le> length (filter truthy (js_split CHR ''/'' pathname))
    then filter truthy (js_split CHR ''/'' pathname) ! 1 else ''latest'')
   = spec_latest_version pathname"
proof -
  have t: "truthy = (\<lambda>c. c \<noteq> [])" by (rule ext) (simp add: truthy_def)
  show ?thesis
    unfolding spec_latest_version_def path_segments_def t
    by (cases "filter (\<lambda>c. c \<noteq> []) (js_split CHR ''/'' pathname)" rule: remdups_adj.cases)
       simp_all
qed

lemma spec_latest_version_second:
  "2 \<le> length (filter truthy (js_split CHR ''/'' pathname)) \<Longrightarrow>
     filter truthy (js_split CHR ''/'' pathname) ! Suc 0 = spec_latest_version pathname"
  using spec_latest_version_code[of pathname] by simp

lemma spec_latest_version_short:
  "\<not> 2 \<le> length (filter truthy (js_split CHR ''/'' pathname)) \<Longrightarrow>
     spec_latest_version pathname = ''latest''"
  using spec_latest_version_code[of pathname] by simp

lemma resolveDebUrl_latest:
  assumes "http_get env (redirectEndpoint arch channel) = Inr r"
  shows "resolveDebUrl env channel ''latest'' arch debArch tr =
     (if statusCode r = Some 302 \<or> statusCode r = Some 301 then
        (case location r of
           None \<Rightarrow> (Inl (Error ''Redirect location header missing''),
                    tr @ [HttpGet (redirectEndpoint arch channel)])
         | Some loc \<Rightarrow>
             if loc = [] then (Inl (Error ''Redirect location header missing''),
                               tr @ [HttpGet (redirectEndpoint arch channel)])
             else (case new_URL_pathname env loc of
                     None \<Rightarrow> (Inl (TypeError ''Invalid URL''),
                              tr @ [HttpGet (redirectEndpoint arch channel)])
                   | Some pathname \<Rightarrow>
                       (Inr (loc, spec_latest_version pathname),
                        tr @ [HttpGet (redirectEndpoint arch channel),
                              CoreInfo (''Latest version on '' @ channel @ '' is ''
                                        @ spec_latest_version pathname)])))
      else (Inl (Error (''Expected redirect, got status '' @ string_of_status (statusCode r))),
            tr @ [HttpGet (redirectEndpoint arch channel)]))"
  using assms
  by (simp add: resolveDebUrl_def Let_def spec_latest_version_second spec_latest_version_short
      split: option.splits)
     (simp add: truthy_def)

lemma fetchDeb_extends:
  "\<exists>ext. snd (fetchDeb env channel version debUrl tr)
           = tr @ TcFind ''oz'' (channel @ ''-'' @ version) # ext"
  by (simp add: fetchDeb_def Let_def split: sum.splits)

lemma downloadOzDeb_latest:
  assumes "hostArch env = Inr (arch, debArch)"
    and "http_get env (redirectEndpoint arch channel) = Inr r"
  shows "downloadOzDeb env channel ''latest'' tr =
     (if statusCode r = Some 302 \<or> statusCode r = Some 301 then
        (case location r of
           None \<Rightarrow> (Inl (Error ''Redirect location header missing''),
                    tr @ [HttpGet (redirectEndpoint arch channel)])
         | Some loc \<Rightarrow>
             if loc = [] then (Inl (Error ''Redirect location header missing''),
                               tr @ [HttpGet (redirectEndpoint arch channel)])
             else (case new_URL_pathname env loc of
                     None \<Rightarrow> (Inl (TypeError ''Invalid URL''),
                              tr @ [HttpGet (redirectEndpoint arch channel)])
                   | Some pathname \<Rightarrow>
                       fetchDeb env channel (spec_latest_version pathname) loc
                        (tr @ [HttpGet (redirectEndpoint arch channel),
                              CoreInfo (''Latest version on '' @ channel @ '' is ''
                                        @ spec_latest_version pathname)])))
      else (Inl (Error (''Expected redirect, got status '' @ string_of_status (statusCode r))),
            tr @ [HttpGet (redirectEndpoint arch channel)]))"
  by (simp add: downloadOzDeb_phases[OF assms(1)] resolveDebUrl_latest[OF assms(2)]
      split: option.splits)

text \<open>
  C5, as amended. For the version \<^verbatim>\<open>latest\<close>, on a supported host whose redirect endpoint
  answers: package location fails with the redirect-expected error, right after the
  request, exactly when the status is neither 301 nor 302; it fails with the
  missing-location error exactly when the status is 301 or 302 and the location header is
  absent or empty. Otherwise, when the \<^verbatim>\<open>URL\<close> constructor rejects the location, it fails
  with the constructor's \<^verbatim>\<open>TypeError\<close>; when the location parses, the location is the
  download URL and the function goes on to the cache with the second segment of the path
  as the version if the path has two segments, and with \<^verbatim>\<open>latest\<close> if it has fewer.
\<close>

theorem latest_redirect:
  assumes "hostArch env = Inr (arch, debArch)"
    and "http_get env (redirectEndpoint arch channel) = Inr r"
  shows
    "((statusCode r \<noteq> Some 301 \<and> statusCode r \<noteq> Some 302) \<longleftrightarrow>
        downloadOzDeb env channel ''latest'' tr
          = (Inl (Error (''Expected redirect, got status '' @ string_of_status (statusCode r))),
             tr @ [HttpGet (redirectEndpoint arch channel)]))
     \<and> (((statusCode r = Some 301 \<or> statusCode r = Some 302)
           \<and> (location r = None \<or> location r = Some [])) \<longleftrightarrow>
        downloadOzDeb env channel ''latest'' tr
          = (Inl (Error ''Redirect location header missing''),
             tr @ [HttpGet (redirectEndpoint arch channel)]))
     \<and> (\<forall>loc. (statusCode r = Some 301 \<or> statusCode r = Some 302)
           \<and> location r = Some loc \<and> loc \<noteq> [] \<longrightarrow>
          (case new_URL_pathname env loc of
             None \<Rightarrow>
               downloadOzDeb env channel ''latest'' tr
                 = (Inl (TypeError ''Invalid URL''),
                    tr @ [HttpGet (redirectEndpoint arch channel)])
           | Some pathname \<Rightarrow>
               downloadOzDeb env channel ''latest'' tr
                 = fetchDeb env channel (spec_latest_version pathname) loc
                     (tr @ [HttpGet (redirectEndpoint arch channel),
                            CoreInfo (''Latest version on '' @ channel @ '' is ''
                                      @ spec_latest_version pathname)])))
     \<and> (\<forall>pathname. length (path_segments pathname) < 2
           \<longrightarrow> spec_latest_version pathname = ''latest'')
     \<and> (\<forall>pathname. 2 \<le> length (path_segments pathname)
           \<longrightarrow> spec_latest_version pathname = path_segments pathname ! 1)"
proof -
  let ?tr1 = "tr @ [HttpGet (redirectEndpoint arch channel)]"
  note d = downloadOzDeb_latest[OF assms, of tr]
  have far: "snd (fetchDeb env channel v u (?tr1 @ [i])) \<noteq> ?tr1" for v u i
  proof -
    obtain ext where "snd (fetchDeb env channel v u (?tr1 @ [i]))
        = (?tr1 @ [i]) @ TcFind ''oz'' (channel @ ''-'' @ v) # ext"
      using fetchDeb_extends by blast
    then have "length (snd (fetchDeb env channel v u (?tr1 @ [i]))) > length ?tr1"
      by simp
    then show ?thesis by auto
  qed
  have far': "fetchDeb env channel v u (?tr1 @ [i]) \<noteq> (x, ?tr1)" for v u i x
    using far[of v u i] by (metis snd_conv)
  have a: "(statusCode r \<noteq> Some 301 \<and> statusCode r \<noteq> Some 302) \<longleftrightarrow>
        downloadOzDeb env channel ''latest'' tr
          = (Inl (Error (''Expected redirect, got status '' @ string_of_status (statusCode r))),
             ?tr1)"
    using far' unfolding d by (auto split: option.splits)
  have b: "((statusCode r = Some 301 \<or> statusCode r = Some 302)
           \<and> (location r = None \<or> location r = Some [])) \<longleftrightarrow>
        downloadOzDeb env channel ''latest'' tr
          = (Inl (Error ''Redirect location header missing''), ?tr1)"
    using far' unfolding d by (auto split: option.splits)
  have c: "\<forall>loc. (statusCode r = Some 301 \<or> statusCode r = Some 302)
           \<and> location r = Some loc \<and> loc \<noteq> [] \<longrightarrow>
          (case new_URL_pathname env loc of
             None \<Rightarrow>
               downloadOzDeb env channel ''latest'' tr = (Inl (TypeError ''Invalid URL''), ?tr1)
           | Some pathname \<Rightarrow>
               downloadOzDeb env channel ''latest'' tr
                 = fetchDeb env channel (spec_latest_version pathname) loc
                     (tr @ [HttpGet (redirectEndpoint arch channel),
                            CoreInfo (''Latest version on '' @ channel @ '' is ''
                                      @ spec_latest_version pathname)]))"
    unfolding d by (auto split: option.splits)
  have e: "\<forall>pathname. length (path_segments pathname) < 2
           \<longrightarrow> spec_latest_version pathname = ''latest''"
  proof (intro allI impI)
    fix pathname assume "length (path_segments pathname) < 2"
    then show "spec_latest_version pathname = ''latest''"
      unfolding spec_latest_version_def
      by (cases "path_segments pathname" rule: remdups_adj.cases) simp_all
  qed
  have f: "\<forall>pathname. 2 \<le> length (path_segments pathname)
           \<longrightarrow> spec_latest_version pathname = path_segments pathname ! 1"
  proof (intro allI impI)
    fix pathname assume "2 \<le> length (path_segments pathname)"
    then show "spec_latest_version pathname = path_segments pathname ! 1"
      unfolding spec_latest_version_def
      by (cases "path_segments pathname" rule: remdups_adj.cases) simp_all
  qed
  from a b c e f show ?thesis by blast
qed

text \<open>
  C5 as stated fails where the location is present and no absolute URL: the endpoint
  answers 302 with the relative reference \<^verbatim>\<open>/stable/v0.1.2/oz_stable_0.1.2_amd64.deb\<close>,
  and package location fails with a \<^verbatim>\<open>TypeError\<close>, neither of the two errors named, and
  has no download URL.
\<close>

theorem relative_redirect_counterexample:
  "hostArch example_env_relative = Inr (''x86_64'', ''amd64'')
   \<and> http_get example_env_relative (redirectEndpoint ''x86_64'' ''stable'')
       = Inr \<lparr>statusCode = Some 302,
              location = Some ''/stable/v0.1.2/oz_stable_0.1.2_amd64.deb''\<rparr>
   \<and> downloadOzDeb example_env_relative ''stable'' ''latest'' []
       = (Inl (TypeError ''Invalid URL''),
          [HttpGet ''https://app.warp.dev/download/cli?os=linux&package=deb&arch=x86_64&channel=stable''])"
  by (simp add: example_env_relative_def example_env_def hostArch_def downloadOzDeb_def
      resolveDebUrl_def redirectEndpoint_def truthy_def example_pathname_def startsWith_def)

theorem latest_redirect_witness:
  "hostArch example_env = Inr (''x86_64'', ''amd64'')
   \<and> http_get example_env (redirectEndpoint ''x86_64'' ''stable'')
       = Inr \<lparr>statusCode = Some 302,
              location = Some ''https://releases.warp.dev/stable/v0.1.2/oz_stable_0.1.2_amd64.deb''\<rparr>
   \<and> new_URL_pathname example_env
         ''https://releases.warp.dev/stable/v0.1.2/oz_stable_0.1.2_amd64.deb''
       = Some ''/stable/v0.1.2/oz_stable_0.1.2_amd64.deb''
   \<and> downloadOzDeb example_env ''stable'' ''latest'' []
       = fetchDeb example_env ''stable'' ''v0.1.2''
           ''https://releases.warp.dev/stable/v0.1.2/oz_stable_0.1.2_amd64.deb''
           [HttpGet (redirectEndpoint ''x86_64'' ''stable''),
            CoreInfo ''Latest version on stable is v0.1.2'']
   \<and> hostArch example_env_root = Inr (''x86_64'', ''amd64'')
   \<and> http_get example_env_root (redirectEndpoint ''x86_64'' ''stable'')
       = Inr \<lparr>statusCode = Some 301, location = Some ''https://releases.warp.dev''\<rparr>
   \<and> new_URL_pathname example_env_root ''https://releases.warp.dev'' = Some ''/''
   \<and> downloadOzDeb example_env_root ''stable'' ''latest'' []
       = fetchDeb example_env_root ''stable'' ''latest'' ''https://releases.warp.dev''
           [HttpGet (redirectEndpoint ''x86_64'' ''stable''),
            CoreInfo ''Latest version on stable is latest'']"
proof -
  let ?u = "''https://releases.warp.dev/stable/v0.1.2/oz_stable_0.1.2_amd64.deb''"
  let ?r = "\<lparr>statusCode = Some 302, location = Some ?u\<rparr>"
  let ?r' = "\<lparr>statusCode = Some 301, location = Some ''https://releases.warp.dev''\<rparr>"
  have h: "hostArch example_env = Inr (''x86_64'', ''amd64'')"
    and h': "hostArch example_env_root = Inr (''x86_64'', ''amd64'')"
    by (simp_all add: hostArch_def example_env_def example_env_root_def)
  have g: "http_get example_env (redirectEndpoint ''x86_64'' ''stable'') = Inr ?r"
    and g': "http_get example_env_root (redirectEndpoint ''x86_64'' ''stable'') = Inr ?r'"
    by (simp_all add: example_env_def example_env_root_def)
  have p: "new_URL_pathname example_env ?u = Some ''/stable/v0.1.2/oz_stable_0.1.2_amd64.deb''"
    and p': "new_URL_pathname example_env_root ''https://releases.warp.dev'' = Some ''/''"
    by (simp_all add: example_env_def example_env_root_def example_pathname_def startsWith_def)
  have v: "spec_latest_version ''/stable/v0.1.2/oz_stable_0.1.2_amd64.deb'' = ''v0.1.2''"
    and v': "spec_latest_version ''/'' = ''latest''"
    by (simp_all add: spec_latest_version_def path_segments_def)
  have a: "downloadOzDeb example_env ''stable'' ''latest'' []
       = fetchDeb example_env ''stable'' ''v0.1.2'' ?u
           [HttpGet (redirectEndpoint ''x86_64'' ''stable''),
            CoreInfo ''Latest version on stable is v0.1.2'']"
    using latest_redirect[OF h g, of "[]", THEN conjunct2, THEN conjunct2, THEN conjunct1,
        rule_format, of ?u]
    by (simp add: p v)
  have b: "downloadOzDeb example_env_root ''stable'' ''latest'' []
       = fetchDeb example_env_root ''stable'' ''latest'' ''https://releases.warp.dev''
           [HttpGet (redirectEndpoint ''x86_64'' ''stable''),
            CoreInfo ''Latest version on stable is latest'']"
    using latest_redirect[OF h' g', of "[]", THEN conjunct2, THEN conjunct2, THEN conjunct1,
        rule_format, of "''https://releases.warp.dev''"]
    by (simp add: p' v')
  from h g p a h' g' p' b show ?thesis by blast
qed

subsection \<open>The cache\<close>

text \<open>
  C6. On a supported host, once the URL and the version \<open>v\<close> are resolved, the cache is
  asked for the tool \<^verbatim>\<open>oz\<close> under the key \<^verbatim>\<open><channel>-<v>\<close>. On a hit the result is the
  path of \<^verbatim>\<open>oz.deb\<close> in the cached directory and nothing is downloaded. On a miss the
  resolved URL is downloaded, the file is registered under the tool \<^verbatim>\<open>oz\<close>, the file
  name \<^verbatim>\<open>oz.deb\<close> and the same key, and the result is the path of \<^verbatim>\<open>oz.deb\<close> in the
  directory the cache answers.
\<close>

theorem cache_hit_or_download:
  assumes "hostArch env = Inr (arch, debArch)"
    and "resolveDebUrl env channel version arch debArch tr = (Inr (debUrl, v), tr1)"
  shows
    "(tc_find env ''oz'' (channel @ ''-'' @ v) \<noteq> [] \<longrightarrow>
        downloadOzDeb env channel version tr
          = (Inr (path_join env [tc_find env ''oz'' (channel @ ''-'' @ v), ''oz.deb'']),
             tr1 @ [TcFind ''oz'' (channel @ ''-'' @ v), CoreDebug ''Using cached .deb package''])
        \<and> filter is_network (drop (length tr1) (snd (downloadOzDeb env channel version tr))) = [])
     \<and> (tc_find env ''oz'' (channel @ ''-'' @ v) = [] \<longrightarrow>
          (\<forall>downloadedDeb cachedDeb.
              tc_downloadTool env debUrl = Inr downloadedDeb
              \<and> tc_cacheFile env downloadedDeb ''oz.deb'' ''oz'' (channel @ ''-'' @ v)
                  = Inr cachedDeb \<longrightarrow>
              downloadOzDeb env channel version tr
                = (Inr (path_join env [cachedDeb, ''oz.deb'']),
                   tr1 @ [TcFind ''oz'' (channel @ ''-'' @ v),
                          CoreDebug (''Downloading from '' @ debUrl @ ''...''),
                          TcDownloadTool debUrl,
                          TcCacheFile downloadedDeb ''oz.deb'' ''oz'' (channel @ ''-'' @ v)])))"
  by (simp add: downloadOzDeb_phases[OF assms(1)] assms(2) fetchDeb_def Let_def truthy_def)

theorem cache_hit_or_download_witness:
  "hostArch example_env = Inr (''x86_64'', ''amd64'')
   \<and> resolveDebUrl example_env ''preview'' ''1.2.3'' ''x86_64'' ''amd64'' []
       = (Inr (''https://releases.warp.dev/preview/v1.2.3/oz_preview_1.2.3_amd64.deb'',
               ''v1.2.3''), [])
   \<and> tc_find example_env ''oz'' ''preview-v1.2.3'' = []
   \<and> tc_downloadTool example_env
         ''https://releases.warp.dev/preview/v1.2.3/oz_preview_1.2.3_amd64.deb''
       = Inr ''/tmp/download''
   \<and> tc_cacheFile example_env ''/tmp/download'' ''oz.deb'' ''oz'' ''preview-v1.2.3''
       = Inr ''/opt/hostedtoolcache/oz''
   \<and> downloadOzDeb example_env ''preview'' ''1.2.3'' []
       = (Inr ''/opt/hostedtoolcache/oz/oz.deb'',
          [TcFind ''oz'' ''preview-v1.2.3'',
           CoreDebug ''Downloading from https://releases.warp.dev/preview/v1.2.3/oz_preview_1.2.3_amd64.deb...'',
           TcDownloadTool ''https://releases.warp.dev/preview/v1.2.3/oz_preview_1.2.3_amd64.deb'',
           TcCacheFile ''/tmp/download'' ''oz.deb'' ''oz'' ''preview-v1.2.3''])
   \<and> hostArch example_env_cached = Inr (''x86_64'', ''amd64'')
   \<and> resolveDebUrl example_env_cached ''preview'' ''1.2.3'' ''x86_64'' ''amd64'' []
       = (Inr (''https://releases.warp.dev/preview/v1.2.3/oz_preview_1.2.3_amd64.deb'',
               ''v1.2.3''), [])
   \<and> tc_find example_env_cached ''oz'' ''preview-v1.2.3'' \<noteq> []
   \<and> downloadOzDeb example_env_cached ''preview'' ''1.2.3'' []
       = (Inr ''/opt/hostedtoolcache/oz/oz.deb'',
          [TcFind ''oz'' ''preview-v1.2.3'', CoreDebug ''Using cached .deb package''])"
proof -
  have h: "hostArch example_env = Inr (''x86_64'', ''amd64'')"
    and hc: "hostArch example_env_cached = Inr (''x86_64'', ''amd64'')"
    by (simp_all add: hostArch_def example_env_def example_env_cached_def)
  have r: "resolveDebUrl example_env ''preview'' ''1.2.3'' ''x86_64'' ''amd64'' []
       = (Inr (''https://releases.warp.dev/preview/v1.2.3/oz_preview_1.2.3_amd64.deb'',
               ''v1.2.3''), [])"
    and rc: "resolveDebUrl example_env_cached ''preview'' ''1.2.3'' ''x86_64'' ''amd64'' []
       = (Inr (''https://releases.warp.dev/preview/v1.2.3/oz_preview_1.2.3_amd64.deb'',
               ''v1.2.3''), [])"
    by (simp_all add: resolveDebUrl_def normalizeVersion_def startsWith_def)
  show ?thesis
    using h hc r rc cache_hit_or_download[OF h r] cache_hit_or_download[OF hc rc]
    by (simp add: example_env_def example_env_cached_def)
qed

subsection \<open>The orchestrator\<close>

lemma resolveDebUrl_extends:
  "\<exists>ext. snd (resolveDebUrl env channel version arch debArch tr) = tr @ ext"
  by (simp add: resolveDebUrl_def Let_def split: sum.splits option.splits prod.splits)

lemma downloadOzDeb_extends:
  "\<exists>ext. snd (downloadOzDeb env channel version tr) = tr @ ext"
proof (cases "hostArch env")
  case (Inl e)
  then show ?thesis by (simp add: downloadOzDeb_def)
next
  case (Inr ab)
  obtain arch debArch where ab: "ab = (arch, debArch)" by (cases ab)
  obtain res tr1 where r: "resolveDebUrl env channel version arch debArch tr = (res, tr1)"
    by (cases "resolveDebUrl env channel version arch debArch tr")
  obtain ext1 where e1: "tr1 = tr @ ext1"
    using resolveDebUrl_extends[of env channel version arch debArch tr] r by auto
  show ?thesis
  proof (cases res)
    case (Inl e)
    with Inr ab r e1 show ?thesis by (simp add: downloadOzDeb_def)
  next
    case (Inr uv)
    obtain debUrl v where uv: "uv = (debUrl, v)" by (cases uv)
    obtain ext2 where "snd (fetchDeb env channel v debUrl tr1)
        = tr1 @ TcFind ''oz'' (channel @ ''-'' @ v) # ext2"
      using fetchDeb_extends by blast
    with \<open>hostArch env = Inr ab\<close> ab r e1 Inr uv show ?thesis
      by (simp add: downloadOzDeb_def)
  qed
qed

lemma installOz_extends:
  "\<exists>ext. snd (installOz env channel version tr) = tr @ CoreStartGroup ''Installing Oz'' # ext"
proof -
  obtain res tr1 where
    d: "downloadOzDeb env channel version (tr @ [CoreStartGroup ''Installing Oz'']) = (res, tr1)"
    by (cases "downloadOzDeb env channel version (tr @ [CoreStartGroup ''Installing Oz''])")
  obtain ext where "tr1 = (tr @ [CoreStartGroup ''Installing Oz'']) @ ext"
    using downloadOzDeb_extends[of env channel version "tr @ [CoreStartGroup ''Installing Oz'']"] d
    by auto
  then show ?thesis
    by (simp add: installOz_def d Let_def split: sum.splits)
qed

lemma logOzLogFile_extends: "\<exists>ext. logOzLogFile env channel tr = tr @ ext"
  by (simp add: logOzLogFile_def Let_def split: sum.splits)

lemma runAgent_after_checks:
  assumes "core_getInput env ''prompt'' \<noteq> [] \<or> core_getInput env ''saved_prompt'' \<noteq> []
           \<or> core_getInput env ''skill'' \<noteq> []"
    and "core_getInput env ''warp_api_key'' \<noteq> []"
    and "resolveCommand (core_getInput env ''oz_channel'') = Inr command"
  shows "\<exists>ext. snd (runAgent env tr) = tr @ CoreStartGroup ''Installing Oz'' # ext"
proof -
  obtain res tr1 where
    i: "installOz env (core_getInput env ''oz_channel'') (core_getInput env ''oz_version'') tr
          = (res, tr1)"
    by (cases "installOz env (core_getInput env ''oz_channel'')
                 (core_getInput env ''oz_version'') tr")
  obtain ext where e: "tr1 = tr @ CoreStartGroup ''Installing Oz'' # ext"
    using installOz_extends[of env "core_getInput env ''oz_channel''"
        "core_getInput env ''oz_version''" tr] i by auto
  show ?thesis
  proof (cases res)
    case (Inl err)
    with assms i e show ?thesis by (auto simp add: runAgent_def truthy_def Let_def)
  next
    case (Inr u)
    define args where "args = buildArgs
       \<lparr>prompt = core_getInput env ''prompt'', savedPrompt = core_getInput env ''saved_prompt'',
        skill = core_getInput env ''skill'', model = core_getInput env ''model'',
        name = core_getInput env ''name'', mcp = core_getInput env ''mcp'',
        cwd = core_getInput env ''cwd'', profile = core_getInput env ''profile'',
        outputFormat = core_getInput env ''output_format'',
        shareRecipients = core_getMultilineInput env ''share'', debug = core_isDebug env\<rparr>"
    define tr2 where
      "tr2 = tr1 @ [GetExecOutput command args (core_getInput env ''warp_api_key'')]"
    have run: "runAgent env tr =
       (case exec_getExecOutput env command args (core_getInput env ''warp_api_key'') of
          Inl e \<Rightarrow> (Inl e, logOzLogFile env (core_getInput env ''oz_channel'') tr2)
        | Inr out \<Rightarrow> (Inr (), tr2 @ [CoreSetOutput ''agent_output'' out]))"
    proof -
      from assms(1) have n: "\<not> (core_getInput env ''prompt'' = []
          \<and> core_getInput env ''saved_prompt'' = [] \<and> core_getInput env ''skill'' = [])"
        by blast
      show ?thesis
        unfolding tr2_def args_def
        by (simp add: runAgent_def truthy_def Let_def n assms(2,3) i Inr)
    qed
    obtain ext2 where l: "logOzLogFile env (core_getInput env ''oz_channel'') tr2 = tr2 @ ext2"
      using logOzLogFile_extends by blast
    show ?thesis
      unfolding run using e l
      by (cases "exec_getExecOutput env command args (core_getInput env ''warp_api_key'')")
         (simp_all add: tr2_def)
  qed
qed

text \<open>
  C8. \<^verbatim>\<open>runAgent\<close> fails with the error naming the missing input when prompt, saved
  prompt and skill are all empty, and when the credential is empty; in both cases the
  trace is the one it was given, so no network or process activity came before. When one
  of the three and the credential are present the run proceeds: it fails on an unsupported
  channel with that error, and otherwise its next event opens the installation.
\<close>

theorem required_inputs:
  "(core_getInput env ''prompt'' = [] \<and> core_getInput env ''saved_prompt'' = []
      \<and> core_getInput env ''skill'' = [] \<longrightarrow>
      runAgent env tr
        = (Inl (Error ''Either `prompt`, `saved_prompt`, or `skill` must be provided''), tr))
   \<and> ((core_getInput env ''prompt'' \<noteq> [] \<or> core_getInput env ''saved_prompt'' \<noteq> []
        \<or> core_getInput env ''skill'' \<noteq> [])
       \<and> core_getInput env ''warp_api_key'' = [] \<longrightarrow>
      runAgent env tr = (Inl (Error ''`warp_api_key` must be provided.''), tr))
   \<and> ((core_getInput env ''prompt'' = [] \<and> core_getInput env ''saved_prompt'' = []
        \<and> core_getInput env ''skill'' = []) \<or> core_getInput env ''warp_api_key'' = [] \<longrightarrow>
      snd (runAgent env tr) = tr
      \<and> filter is_network (snd (runAgent env tr)) = filter is_network tr
      \<and> filter is_process (snd (runAgent env tr)) = filter is_process tr)
   \<and> ((core_getInput env ''prompt'' \<noteq> [] \<or> core_getInput env ''saved_prompt'' \<noteq> []
        \<or> core_getInput env ''skill'' \<noteq> [])
       \<and> core_getInput env ''warp_api_key'' \<noteq> [] \<longrightarrow>
      (case resolveCommand (core_getInput env ''oz_channel'') of
         Inl e \<Rightarrow>
           runAgent env tr
             = (Inl (Error (''Unsupported channel '' @ core_getInput env ''oz_channel'')), tr)
       | Inr command \<Rightarrow>
           take (Suc (length tr)) (snd (runAgent env tr))
             = tr @ [CoreStartGroup ''Installing Oz'']))"
proof (intro conjI impI)
  assume "core_getInput env ''prompt'' = [] \<and> core_getInput env ''saved_prompt'' = []
      \<and> core_getInput env ''skill'' = []"
  then show "runAgent env tr
        = (Inl (Error ''Either `prompt`, `saved_prompt`, or `skill` must be provided''), tr)"
    by (simp add: runAgent_def truthy_def)
next
  assume "(core_getInput env ''prompt'' \<noteq> [] \<or> core_getInput env ''saved_prompt'' \<noteq> []
        \<or> core_getInput env ''skill'' \<noteq> [])
       \<and> core_getInput env ''warp_api_key'' = []"
  then show "runAgent env tr = (Inl (Error ''`warp_api_key` must be provided.''), tr)"
    by (auto simp add: runAgent_def truthy_def)
next
  assume a: "(core_getInput env ''prompt'' = [] \<and> core_getInput env ''saved_prompt'' = []
        \<and> core_getInput env ''skill'' = []) \<or> core_getInput env ''warp_api_key'' = []"
  then show s: "snd (runAgent env tr) = tr"
    by (auto simp add: runAgent_def truthy_def Let_def)
  then show "filter is_network (snd (runAgent env tr)) = filter is_network tr"
    and "filter is_process (snd (runAgent env tr)) = filter is_process tr"
    by simp_all
next
  assume a: "(core_getInput env ''prompt'' \<noteq> [] \<or> core_getInput env ''saved_prompt'' \<noteq> []
        \<or> core_getInput env ''skill'' \<noteq> [])
       \<and> core_getInput env ''warp_api_key'' \<noteq> []"
  show "case resolveCommand (core_getInput env ''oz_channel'') of
         Inl e \<Rightarrow>
           runAgent env tr
             = (Inl (Error (''Unsupported channel '' @ core_getInput env ''oz_channel'')), tr)
       | Inr command \<Rightarrow>
           take (Suc (length tr)) (snd (runAgent env tr))
             = tr @ [CoreStartGroup ''Installing Oz'']"
  proof (cases "resolveCommand (core_getInput env ''oz_channel'')")
    case (Inl e)
    then have "e = Error (''Unsupported channel '' @ core_getInput env ''oz_channel'')"
      by (simp add: resolveCommand_def split: if_splits)
    with Inl a show ?thesis by (auto simp add: runAgent_def truthy_def)
  next
    case (Inr command)
    from a have p: "core_getInput env ''prompt'' \<noteq> [] \<or> core_getInput env ''saved_prompt'' \<noteq> []
        \<or> core_getInput env ''skill'' \<noteq> []"
      and k: "core_getInput env ''warp_api_key'' \<noteq> []" by simp_all
    obtain ext where "snd (runAgent env tr) = tr @ CoreStartGroup ''Installing Oz'' # ext"
      using runAgent_after_checks[OF p k Inr] by blast
    with Inr show ?thesis by simp
  qed
qed

theorem required_inputs_witness:
  "core_getInput example_env_no_prompt ''prompt'' = []
   \<and> core_getInput example_env_no_prompt ''saved_prompt'' = []
   \<and> core_getInput example_env_no_prompt ''skill'' = []
   \<and> runAgent example_env_no_prompt []
       = (Inl (Error ''Either `prompt`, `saved_prompt`, or `skill` must be provided''), [])
   \<and> core_getInput example_env_no_key ''prompt'' \<noteq> []
   \<and> core_getInput example_env_no_key ''warp_api_key'' = []
   \<and> runAgent example_env_no_key [] = (Inl (Error ''`warp_api_key` must be provided.''), [])
   \<and> core_getInput example_env ''prompt'' \<noteq> []
   \<and> core_getInput example_env ''warp_api_key'' \<noteq> []
   \<and> resolveCommand (core_getInput example_env ''oz_channel'') = Inr ''oz''
   \<and> take (Suc 0) (snd (runAgent example_env [])) = [CoreStartGroup ''Installing Oz'']"
  using required_inputs[of example_env_no_prompt "[]"] required_inputs[of example_env_no_key "[]"]
    required_inputs[of example_env "[]"]
  by (simp add: example_env_no_prompt_def example_env_no_key_def example_env_def
      example_inputs_def resolveCommand_def)

end
